theory Spec2Isabelle
  imports Complex_Main
begin

section \<open>JavaScript numbers and values\<close>

text \<open>
  The palette code (\<^verbatim>\<open>utils/color.js\<close>) computes with JavaScript numbers. A finite
  number is idealised here as a real: the rounding of IEEE double arithmetic is not
  modelled. The three special values are kept, because the control flow of the code
  depends on them: \<^verbatim>\<open>Infinity\<close> initialises \<^verbatim>\<open>minDiff\<close>, and \<^verbatim>\<open>0 / 0\<close> is
  \<^verbatim>\<open>NaN\<close>, not an exception.
\<close>

datatype jsnum = Fin real | PInf | NInf | NaN

text \<open>Subtraction \<^verbatim>\<open>a - b\<close>.\<close>

fun jsub :: "jsnum \<Rightarrow> jsnum \<Rightarrow> jsnum" where
  "jsub (Fin a) (Fin b) = Fin (a - b)"
| "jsub (Fin a) PInf = NInf"
| "jsub (Fin a) NInf = PInf"
| "jsub (Fin a) NaN = NaN"
| "jsub PInf (Fin b) = PInf"
| "jsub PInf PInf = NaN"
| "jsub PInf NInf = PInf"
| "jsub PInf NaN = NaN"
| "jsub NInf (Fin b) = NInf"
| "jsub NInf PInf = NInf"
| "jsub NInf NInf = NaN"
| "jsub NInf NaN = NaN"
| "jsub NaN b = NaN"

text \<open>Multiplication \<^verbatim>\<open>a * b\<close>: an infinity times zero is \<^verbatim>\<open>NaN\<close>.\<close>

definition inf_of_sign :: "real \<Rightarrow> jsnum" where
  "inf_of_sign s = (if s = 0 then NaN else if 0 < s then PInf else NInf)"

fun jmul :: "jsnum \<Rightarrow> jsnum \<Rightarrow> jsnum" where
  "jmul (Fin a) (Fin b) = Fin (a * b)"
| "jmul (Fin a) PInf = inf_of_sign a"
| "jmul (Fin a) NInf = inf_of_sign (- a)"
| "jmul (Fin a) NaN = NaN"
| "jmul PInf (Fin b) = inf_of_sign b"
| "jmul PInf PInf = PInf"
| "jmul PInf NInf = NInf"
| "jmul PInf NaN = NaN"
| "jmul NInf (Fin b) = inf_of_sign (- b)"
| "jmul NInf PInf = NInf"
| "jmul NInf NInf = PInf"
| "jmul NInf NaN = NaN"
| "jmul NaN b = NaN"

text \<open>
  Division \<^verbatim>\<open>a / b\<close>. Nothing is raised on a zero divisor: \<^verbatim>\<open>0 / 0\<close> is
  \<^verbatim>\<open>NaN\<close> and \<^verbatim>\<open>x / 0\<close> is an infinity with the sign of \<^verbatim>\<open>x\<close> (the zero
  divisors of this program are \<^verbatim>\<open>+0\<close>).
\<close>

fun jdiv :: "jsnum \<Rightarrow> jsnum \<Rightarrow> jsnum" where
  "jdiv (Fin a) (Fin b) = (if b = 0 then inf_of_sign a else Fin (a / b))"
| "jdiv (Fin a) PInf = Fin 0"
| "jdiv (Fin a) NInf = Fin 0"
| "jdiv (Fin a) NaN = NaN"
| "jdiv PInf (Fin b) = (if 0 \<le> b then PInf else NInf)"
| "jdiv PInf PInf = NaN"
| "jdiv PInf NInf = NaN"
| "jdiv PInf NaN = NaN"
| "jdiv NInf (Fin b) = (if 0 \<le> b then NInf else PInf)"
| "jdiv NInf PInf = NaN"
| "jdiv NInf NInf = NaN"
| "jdiv NInf NaN = NaN"
| "jdiv NaN b = NaN"

text \<open>\<^verbatim>\<open>Math.abs\<close>.\<close>

fun jabs :: "jsnum \<Rightarrow> jsnum" where
  "jabs (Fin a) = Fin \<bar>a\<bar>"
| "jabs PInf = PInf"
| "jabs NInf = PInf"
| "jabs NaN = NaN"

text \<open>The comparison \<^verbatim>\<open>a < b\<close>: false whenever an operand is \<^verbatim>\<open>NaN\<close>.\<close>

fun jless :: "jsnum \<Rightarrow> jsnum \<Rightarrow> bool" where
  "jless (Fin a) (Fin b) = (a < b)"
| "jless (Fin a) PInf = True"
| "jless (Fin a) NInf = False"
| "jless (Fin a) NaN = False"
| "jless PInf b = False"
| "jless NInf (Fin b) = True"
| "jless NInf PInf = True"
| "jless NInf NInf = False"
| "jless NInf NaN = False"
| "jless NaN b = False"

text \<open>
  \<^verbatim>\<open>parseFloat(x.toFixed(3))\<close>. \<^verbatim>\<open>toFixed(3)\<close> writes the integer \<open>n\<close> for which
  \<open>n / 1000\<close> is closest to \<open>\<bar>x\<bar>\<close> (the larger one on a tie) with three decimals and
  the sign of \<open>x\<close>; from \<open>10\<^sup>2\<^sup>1\<close> on it writes the number in full. \<^verbatim>\<open>parseFloat\<close>
  reads the text back, also \<^verbatim>\<open>"NaN"\<close> and \<^verbatim>\<open>"Infinity"\<close>.
\<close>

fun parseFloat_toFixed3 :: "jsnum \<Rightarrow> jsnum" where
  "parseFloat_toFixed3 (Fin x) =
     (if 10 ^ 21 \<le> \<bar>x\<bar> then Fin x
      else Fin (sgn x * real_of_int \<lfloor>\<bar>x\<bar> * 1000 + 1 / 2\<rfloor> / 1000))"
| "parseFloat_toFixed3 PInf = PInf"
| "parseFloat_toFixed3 NInf = NInf"
| "parseFloat_toFixed3 NaN = NaN"

text \<open>The values a property of a step object can hold, and objects as key-value lists.\<close>

datatype jsval = Undefined | Null | Num jsnum | Str string | Bool bool

type_synonym obj = "(string \<times> jsval) list"

text \<open>Property access \<^verbatim>\<open>o.k\<close>: a key the object does not have reads as \<^verbatim>\<open>undefined\<close>.\<close>

definition get_prop :: "obj \<Rightarrow> string \<Rightarrow> jsval" where
  "get_prop ob k = (case map_of ob k of None \<Rightarrow> Undefined | Some v \<Rightarrow> v)"

text \<open>
  \<^verbatim>\<open>contrastTargets\<close> maps a step index to a target contrast or to \<^verbatim>\<open>null\<close>
  (\<^verbatim>\<open>handleContrastChange\<close> stores \<^verbatim>\<open>isNaN(val) ? null : val\<close>); an index without a
  key reads as \<^verbatim>\<open>undefined\<close>.
\<close>

datatype entry = NullEntry | NumEntry jsnum

type_synonym targets = "nat \<rightharpoonup> entry"

text \<open>The value \<^verbatim>\<open>contrastTargets[i]\<close>.\<close>

definition target_value :: "targets \<Rightarrow> nat \<Rightarrow> jsval" where
  "target_value contrastTargets i =
     (case contrastTargets i of
        None \<Rightarrow> Undefined
      | Some NullEntry \<Rightarrow> Null
      | Some (NumEntry x) \<Rightarrow> Num x)"

text \<open>
  The test \<^verbatim>\<open>if (contrastTargets[i])\<close>: \<^verbatim>\<open>undefined\<close>, \<^verbatim>\<open>null\<close>, \<^verbatim>\<open>0\<close> and
  \<^verbatim>\<open>NaN\<close> are falsy, every other number is truthy.
\<close>

definition truthy :: "targets \<Rightarrow> nat \<Rightarrow> bool" where
  "truthy contrastTargets i =
     (case contrastTargets i of
        None \<Rightarrow> False
      | Some NullEntry \<Rightarrow> False
      | Some (NumEntry x) \<Rightarrow> x \<noteq> Fin 0 \<and> x \<noteq> NaN)"

text \<open>The number a truthy entry passes on as \<^verbatim>\<open>target\<close>.\<close>

definition target_number :: "targets \<Rightarrow> nat \<Rightarrow> jsnum" where
  "target_number contrastTargets i =
     (case contrastTargets i of
        Some (NumEntry x) \<Rightarrow> x
      | Some NullEntry \<Rightarrow> Fin 0
      | None \<Rightarrow> NaN)"

text \<open>The decimal digits of a loop index, as a template literal writes it.\<close>

function decimal :: "nat \<Rightarrow> string" where
  "decimal n =
     (if n < 10 then [''0123456789'' ! n]
      else decimal (n div 10) @ [''0123456789'' ! (n mod 10)])"
  by pat_completeness auto

termination
  by (relation "measure (\<lambda>n. n)") auto

declare decimal.simps [simp del]

section \<open>The colour library\<close>

text \<open>
  \<^verbatim>\<open>wcagContrast\<close> comes from the library \<^verbatim>\<open>culori\<close>, which is not part of the
  repository: it is a parameter \<open>wcag\<close> of the model, taking the colour object
  \<^verbatim>\<open>{ mode: 'oklch', l, c, h }\<close> and the reference colour. The conversion of a number
  to text inside a template literal is the parameter \<open>str\<close>.
\<close>

record oklch_color =
  col_mode :: string
  col_l :: jsnum
  col_c :: jsnum
  col_h :: jsnum

type_synonym contrast_fn = "oklch_color \<Rightarrow> string \<Rightarrow> jsnum"

text \<open>\<^verbatim>\<open>oklch(l, c, h)\<close>: the CSS text \<^verbatim>\<open>oklch(${l} ${c} ${h})\<close>.\<close>

definition oklch :: "(jsnum \<Rightarrow> string) \<Rightarrow> jsnum \<Rightarrow> jsnum \<Rightarrow> jsnum \<Rightarrow> string" where
  "oklch str l c h = ''oklch('' @ str l @ '' '' @ str c @ '' '' @ str h @ '')''"

section \<open>adjustLightnessForContrast\<close>

text \<open>The variables of the binary search.\<close>

record search =
  minL :: real
  maxL :: real
  bestL :: "real option"
  minDiff :: jsnum

text \<open>The probe \<^verbatim>\<open>mid = (min + max) / 2\<close> of a pass.\<close>

definition mid_of :: "search \<Rightarrow> real" where
  "mid_of s = (minL s + maxL s) / 2"

text \<open>
  One pass of the loop body: \<open>Inl mid\<close> is \<^verbatim>\<open>return mid\<close>, \<open>Inr s'\<close> the variables
  the next pass starts from.
\<close>

definition pass :: "contrast_fn \<Rightarrow> jsnum \<Rightarrow> jsnum \<Rightarrow> jsnum \<Rightarrow> string \<Rightarrow> search \<Rightarrow> real + search" where
  "pass wcag c h targetContrast referenceColor s =
     (let mid = mid_of s;
          color = \<lparr>col_mode = ''oklch'', col_l = Fin mid, col_c = c, col_h = h\<rparr>;
          currentContrast = wcag color referenceColor;
          diff = jabs (jsub currentContrast targetContrast);
          s1 = (if jless diff (minDiff s) then s\<lparr>minDiff := diff, bestL := Some mid\<rparr> else s)
      in if jless (jabs (jsub currentContrast targetContrast)) (Fin 0.05) then Inl mid
         else if jless currentContrast targetContrast then Inr (s1\<lparr>maxL := mid\<rparr>)
         else Inr (s1\<lparr>minL := mid\<rparr>))"

text \<open>The loop \<^verbatim>\<open>for (let i = 0; i < 20; i++)\<close> and the final \<^verbatim>\<open>return bestL\<close>.\<close>

function search_loop ::
  "contrast_fn \<Rightarrow> jsnum \<Rightarrow> jsnum \<Rightarrow> jsnum \<Rightarrow> string \<Rightarrow> nat \<Rightarrow> search \<Rightarrow> real option" where
  "search_loop wcag c h targetContrast referenceColor i s =
     (if i < 20 then
        (case pass wcag c h targetContrast referenceColor s of
           Inl mid \<Rightarrow> Some mid
         | Inr s' \<Rightarrow> search_loop wcag c h targetContrast referenceColor (i + 1) s')
      else bestL s)"
  by pat_completeness auto

termination
  by (relation "measure (\<lambda>(wcag, c, h, targetContrast, referenceColor, i, s). 20 - i)") auto

declare search_loop.simps [simp del]

text \<open>The result is \<open>None\<close> for \<^verbatim>\<open>null\<close>.\<close>

definition adjustLightnessForContrast ::
  "contrast_fn \<Rightarrow> jsnum \<Rightarrow> jsnum \<Rightarrow> jsnum \<Rightarrow> string \<Rightarrow> real option" where
  "adjustLightnessForContrast wcag c h targetContrast referenceColor =
     search_loop wcag c h targetContrast referenceColor 0
       \<lparr>minL = 0, maxL = 1, bestL = None, minDiff = PInf\<rparr>"

text \<open>
  The lightness values the loop evaluates, in order: the trace of \<open>search_loop\<close>, which
  the properties of the search are stated on.
\<close>

function probes ::
  "contrast_fn \<Rightarrow> jsnum \<Rightarrow> jsnum \<Rightarrow> jsnum \<Rightarrow> string \<Rightarrow> nat \<Rightarrow> search \<Rightarrow> real list" where
  "probes wcag c h targetContrast referenceColor i s =
     (if i < 20 then
        mid_of s #
        (case pass wcag c h targetContrast referenceColor s of
           Inl mid \<Rightarrow> []
         | Inr s' \<Rightarrow> probes wcag c h targetContrast referenceColor (i + 1) s')
      else [])"
  by pat_completeness auto

termination
  by (relation "measure (\<lambda>(wcag, c, h, targetContrast, referenceColor, i, s). 20 - i)") auto

declare probes.simps [simp del]

text \<open>The error \<^verbatim>\<open>Math.abs(currentContrast - targetContrast)\<close> of a lightness.\<close>

definition contrast_error ::
  "contrast_fn \<Rightarrow> jsnum \<Rightarrow> jsnum \<Rightarrow> jsnum \<Rightarrow> string \<Rightarrow> real \<Rightarrow> jsnum" where
  "contrast_error wcag c h targetContrast referenceColor x =
     jabs (jsub (wcag \<lparr>col_mode = ''oklch'', col_l = Fin x, col_c = c, col_h = h\<rparr> referenceColor)
                targetContrast)"

section \<open>generatePalette\<close>

definition STEP_NAMES :: "string list" where
  "STEP_NAMES = [''100'', ''99'', ''98'', ''95'', ''90'', ''80'', ''70'', ''60'', ''50'',
                 ''40'', ''35'', ''30'', ''25'', ''20'', ''15'', ''10'', ''5'', ''0'']"

text \<open>\<^verbatim>\<open>STEP_NAMES[i] || `${i}`\<close>: every name of the list is a non-empty text.\<close>

definition stepName :: "nat \<Rightarrow> string" where
  "stepName i = (if i < length STEP_NAMES then STEP_NAMES ! i else decimal i)"

text \<open>
  The default lightness of both branches that compute it:
  \<^verbatim>\<open>t = i / (steps - 1); currentL = 0.97 - (t * 0.9)\<close>.
\<close>

definition defaultL :: "nat \<Rightarrow> nat \<Rightarrow> jsnum" where
  "defaultL steps i =
     (let t = jdiv (Fin (real i)) (Fin (real steps - 1))
      in jsub (Fin 0.97) (jmul t (Fin 0.9)))"

text \<open>
  The first half of the loop body: \<^verbatim>\<open>currentL\<close> and \<^verbatim>\<open>isContrastForced\<close> of
  index \<open>i\<close>. The solver is called with the default reference colour.
\<close>

definition lightness ::
  "contrast_fn \<Rightarrow> jsnum \<Rightarrow> jsnum \<Rightarrow> nat \<Rightarrow> targets \<Rightarrow> nat \<Rightarrow> jsnum \<times> bool" where
  "lightness wcag c h steps contrastTargets i =
     (if truthy contrastTargets i then
        (let target = target_number contrastTargets i;
             adjustedL = adjustLightnessForContrast wcag c h target ''#ffffff''
         in case adjustedL of
              Some x \<Rightarrow> (Fin x, True)
            | None \<Rightarrow> (defaultL steps i, False))
      else (defaultL steps i, False))"

text \<open>The object pushed for index \<open>i\<close>.\<close>

definition paletteStep ::
  "contrast_fn \<Rightarrow> (jsnum \<Rightarrow> string) \<Rightarrow> string \<Rightarrow> jsnum \<Rightarrow> jsnum \<Rightarrow> nat \<Rightarrow> targets \<Rightarrow> nat \<Rightarrow> obj" where
  "paletteStep wcag str ident c h steps contrastTargets i =
     (let (currentL, isContrastForced) = lightness wcag c h steps contrastTargets i
      in [(''id'', Str (ident @ ''-'' @ decimal i)),
          (''stepName'', Str (stepName i)),
          (''l'', Num (parseFloat_toFixed3 currentL)),
          (''c'', Num c),
          (''h'', Num h),
          (''css'', Str (oklch str currentL c h)),
          (''contrastTarget'', target_value contrastTargets i),
          (''isContrastForced'', Bool isContrastForced)])"

text \<open>The loop \<^verbatim>\<open>for (let i = 0; i < steps; i++)\<close> over the array \<^verbatim>\<open>palette\<close>.\<close>

function palette_loop ::
  "contrast_fn \<Rightarrow> (jsnum \<Rightarrow> string) \<Rightarrow> string \<Rightarrow> jsnum \<Rightarrow> jsnum \<Rightarrow> nat \<Rightarrow> targets \<Rightarrow> nat \<Rightarrow> obj list \<Rightarrow> obj list" where
  "palette_loop wcag str ident c h steps contrastTargets i palette =
     (if i < steps then
        palette_loop wcag str ident c h steps contrastTargets (i + 1)
          (palette @ [paletteStep wcag str ident c h steps contrastTargets i])
      else palette)"
  by pat_completeness auto

termination
  by (relation "measure (\<lambda>(wcag, str, ident, c, h, steps, contrastTargets, i, palette). steps - i)") auto

declare palette_loop.simps [simp del]

text \<open>
  \<^verbatim>\<open>generatePalette(id, l, c, h, steps, contrastTargets)\<close>. The step count is a natural
  number, as the caller supplies it; the base lightness \<open>l\<close> is a parameter the body
  never reads.
\<close>

definition generatePalette ::
  "contrast_fn \<Rightarrow> (jsnum \<Rightarrow> string) \<Rightarrow> string \<Rightarrow> jsnum \<Rightarrow> jsnum \<Rightarrow> jsnum \<Rightarrow> nat \<Rightarrow> targets \<Rightarrow> obj list" where
  "generatePalette wcag str ident l c h steps contrastTargets =
     palette_loop wcag str ident c h steps contrastTargets 0 []"

section \<open>The consumer of the steps\<close>

text \<open>
  \<^verbatim>\<open>PaletteRow\<close> shows \<^verbatim>\<open>step.hex\<close> and \<^verbatim>\<open>step.contrast.toFixed(2)\<close> of every step.
  Calling \<^verbatim>\<open>toFixed\<close> on a value that is not a number throws a \<^verbatim>\<open>TypeError\<close>. The
  two-decimal text of a number is the parameter \<open>fixed2\<close>.
\<close>

datatype error = TypeError

definition step_contrast_text :: "(jsnum \<Rightarrow> string) \<Rightarrow> obj \<Rightarrow> error + string" where
  "step_contrast_text fixed2 step =
     (case get_prop step ''contrast'' of
        Num x \<Rightarrow> Inr (fixed2 x @ '':1'')
      | _ \<Rightarrow> Inl TypeError)"

section \<open>Sample inputs\<close>

text \<open>
  A contrast function and a number printer to run the model on concrete inputs. The
  contrast falls linearly from 21 at lightness 0 to 1 at lightness 1, as the contrast
  against white does in its end points. The printer writes the integer part of a number.
\<close>

definition linear_contrast :: contrast_fn where
  "linear_contrast color referenceColor =
     (case col_l color of Fin x \<Rightarrow> Fin (21 - 20 * x) | _ \<Rightarrow> NaN)"

definition plain_str :: "jsnum \<Rightarrow> string" where
  "plain_str x =
     (case x of
        Fin r \<Rightarrow> (if r < 0 then ''-'' else []) @ decimal (nat \<lfloor>\<bar>r\<bar>\<rfloor>)
      | PInf \<Rightarrow> ''Infinity''
      | NInf \<Rightarrow> ''-Infinity''
      | NaN \<Rightarrow> ''NaN'')"

section \<open>Invariants of the binary search\<close>

text \<open>
  \<open>tracked seen s\<close>: after the probes \<open>seen\<close>, none of which was within the tolerance,
  \<open>minDiff\<close> is below no error seen so far and \<open>bestL\<close> is a probe with that error.
\<close>

definition tracked ::
  "contrast_fn \<Rightarrow> jsnum \<Rightarrow> jsnum \<Rightarrow> jsnum \<Rightarrow> string \<Rightarrow> real list \<Rightarrow> search \<Rightarrow> bool" where
  "tracked wcag c h t r seen s \<longleftrightarrow>
     (\<forall>m\<in>set seen. \<not> jless (contrast_error wcag c h t r m) (Fin 0.05)) \<and>
     (\<forall>m\<in>set seen. \<not> jless (contrast_error wcag c h t r m) (minDiff s)) \<and>
     (case bestL s of
        None \<Rightarrow> minDiff s = PInf
      | Some b \<Rightarrow> b \<in> set seen \<and> minDiff s = contrast_error wcag c h t r b \<and>
                  (\<exists>e. contrast_error wcag c h t r b = Fin e))"

text \<open>
  \<open>outcome ps res\<close>: what the search returns, in terms of all its probes \<open>ps\<close>. Either
  the last probe, the first one within the tolerance; or, after twenty probes none of
  which was, a probe whose error is a number that no probe's error is below; or
  \<^verbatim>\<open>null\<close>, after twenty probes none of which had an error below \<^verbatim>\<open>Infinity\<close>.
\<close>

definition outcome ::
  "contrast_fn \<Rightarrow> jsnum \<Rightarrow> jsnum \<Rightarrow> jsnum \<Rightarrow> string \<Rightarrow> real list \<Rightarrow> real option \<Rightarrow> bool" where
  "outcome wcag c h t r ps res \<longleftrightarrow>
     (case res of
        None \<Rightarrow> length ps = 20 \<and> (\<forall>m\<in>set ps. \<not> jless (contrast_error wcag c h t r m) PInf)
      | Some x \<Rightarrow>
          (ps \<noteq> [] \<and> x = last ps \<and>
           (\<exists>e. contrast_error wcag c h t r x = Fin e \<and> e < 0.05) \<and>
           (\<forall>m\<in>set (butlast ps). \<not> jless (contrast_error wcag c h t r m) (Fin 0.05)))
          \<or>
          (length ps = 20 \<and> x \<in> set ps \<and>
           (\<exists>e. contrast_error wcag c h t r x = Fin e \<and> 0.05 \<le> e \<and>
                (\<forall>m\<in>set ps. \<forall>d. contrast_error wcag c h t r m = Fin d \<longrightarrow> e \<le> d))))"

text \<open>\<open>bracket s\<close>: the search interval lies in \<open>[0, 1]\<close> and \<open>bestL\<close> inside it.\<close>

definition bracket :: "search \<Rightarrow> bool" where
  "bracket s \<longleftrightarrow>
     0 \<le> minL s \<and> minL s < maxL s \<and> maxL s \<le> 1 \<and>
     (case bestL s of None \<Rightarrow> True | Some b \<Rightarrow> 0 < b \<and> b < 1)"

section \<open>Comparison and error\<close>

lemma jless_trans: "jless a b \<Longrightarrow> jless b d \<Longrightarrow> jless a d"
  by (cases a; cases b; cases d) auto

lemma jless_irrefl: "\<not> jless a a"
  by (cases a) auto

lemma jless_jabs_Fin: "jless (jabs a) b \<Longrightarrow> \<exists>e. jabs a = Fin e \<and> 0 \<le> e"
  by (cases a; cases b) auto

lemma contrast_error_Fin:
  "jless (contrast_error wcag c h t r x) b \<Longrightarrow> \<exists>e. contrast_error wcag c h t r x = Fin e \<and> 0 \<le> e"
  unfolding contrast_error_def by (rule jless_jabs_Fin)

lemma contrast_error_not_finite:
  assumes "\<forall>t. targetContrast \<noteq> Fin t"
  shows "\<not> jless (contrast_error wcag c h targetContrast r x) PInf"
  using assms unfolding contrast_error_def
  by (cases targetContrast;
      cases "wcag \<lparr>col_mode = ''oklch'', col_l = Fin x, col_c = c, col_h = h\<rparr> r") simp_all

section \<open>One pass of the search\<close>

lemma pass_Inl:
  assumes "pass wcag c h t r s = Inl m"
  shows "m = mid_of s" and "jless (contrast_error wcag c h t r (mid_of s)) (Fin 0.05)"
  using assms by (auto simp: pass_def contrast_error_def Let_def split: if_splits)

lemma pass_Inr:
  assumes "pass wcag c h t r s = Inr s'"
  shows "\<not> jless (contrast_error wcag c h t r (mid_of s)) (Fin 0.05)"
    and "jless (contrast_error wcag c h t r (mid_of s)) (minDiff s) \<Longrightarrow>
           bestL s' = Some (mid_of s) \<and> minDiff s' = contrast_error wcag c h t r (mid_of s)"
    and "\<not> jless (contrast_error wcag c h t r (mid_of s)) (minDiff s) \<Longrightarrow>
           bestL s' = bestL s \<and> minDiff s' = minDiff s"
    and "(minL s' = minL s \<and> maxL s' = mid_of s) \<or> (minL s' = mid_of s \<and> maxL s' = maxL s)"
  using assms by (auto simp: pass_def contrast_error_def Let_def split: if_splits)

lemma tracked_pass:
  assumes p: "pass wcag c h t r s = Inr s'" and tr: "tracked wcag c h t r seen s"
  shows "tracked wcag c h t r (seen @ [mid_of s]) s'"
proof (cases "jless (contrast_error wcag c h t r (mid_of s)) (minDiff s)")
  case True
  from pass_Inr(2)[OF p True] have b: "bestL s' = Some (mid_of s)"
    and d: "minDiff s' = contrast_error wcag c h t r (mid_of s)" by simp_all
  from contrast_error_Fin[OF True] obtain e where e: "contrast_error wcag c h t r (mid_of s) = Fin e"
    by blast
  have old: "\<not> jless (contrast_error wcag c h t r m) (minDiff s')" if "m \<in> set seen" for m
    using tr that True jless_trans unfolding tracked_def d by blast
  show ?thesis
    unfolding tracked_def using tr pass_Inr(1)[OF p] old b d e
    by (auto simp: tracked_def jless_irrefl)
next
  case False
  from pass_Inr(3)[OF p False] have b: "bestL s' = bestL s" and d: "minDiff s' = minDiff s"
    by simp_all
  show ?thesis
    unfolding tracked_def using tr pass_Inr(1)[OF p] False b d
    by (auto simp: tracked_def split: option.splits)
qed

lemma bracket_mid:
  "bracket s \<Longrightarrow> 0 < mid_of s \<and> mid_of s < 1 \<and> minL s < mid_of s \<and> mid_of s < maxL s"
  by (auto simp: bracket_def mid_of_def)

lemma bracket_pass:
  assumes p: "pass wcag c h t r s = Inr s'" and b: "bracket s"
  shows "bracket s'"
proof -
  note m = bracket_mid[OF b]
  have best: "bestL s' = Some (mid_of s) \<or> bestL s' = bestL s"
    using pass_Inr(2,3)[OF p] by blast
  from pass_Inr(4)[OF p] show ?thesis
    using b m best by (auto simp: bracket_def split: option.splits)
qed

section \<open>The whole search\<close>

lemma search_loop_outcome:
  "i \<le> 20 \<Longrightarrow> length seen = i \<Longrightarrow> tracked wcag c h t r seen s \<Longrightarrow>
   outcome wcag c h t r (seen @ probes wcag c h t r i s) (search_loop wcag c h t r i s)"
proof (induction wcag c h t r i s arbitrary: seen rule: search_loop.induct)
  case (1 wcag c h t r i s)
  show ?case
  proof (cases "i < 20")
    case False
    with "1.prems" have i: "i = 20" by simp
    have res: "search_loop wcag c h t r i s = bestL s" "probes wcag c h t r i s = []"
      using i by (simp_all add: search_loop.simps probes.simps)
    show ?thesis
    proof (cases "bestL s")
      case None
      then show ?thesis
        using "1.prems" i res by (auto simp: outcome_def tracked_def)
    next
      case (Some b)
      with "1.prems"(3) obtain e where b: "b \<in> set seen"
        and d: "minDiff s = Fin e" and e: "contrast_error wcag c h t r b = Fin e"
        by (auto simp: tracked_def)
      from "1.prems"(3) b e have "\<not> e < 0.05"
        by (auto simp: tracked_def)
      moreover from "1.prems"(3) d
      have "\<forall>m\<in>set seen. \<forall>d. contrast_error wcag c h t r m = Fin d \<longrightarrow> e \<le> d"
        by (fastforce simp: tracked_def)
      ultimately show ?thesis
        using "1.prems" i res Some b e by (auto simp: outcome_def)
    qed
  next
    case True
    show ?thesis
    proof (cases "pass wcag c h t r s")
      case (Inl m)
      have res: "search_loop wcag c h t r i s = Some m" "probes wcag c h t r i s = [mid_of s]"
        using True Inl
        by (simp_all add: search_loop.simps[of _ _ _ _ _ i] probes.simps[of _ _ _ _ _ i])
      from pass_Inl[OF Inl] have m: "m = mid_of s"
        and hit: "jless (contrast_error wcag c h t r m) (Fin 0.05)" by simp_all
      from contrast_error_Fin[OF hit] hit
      have "\<exists>e. contrast_error wcag c h t r m = Fin e \<and> e < 0.05" by auto
      then show ?thesis
        using "1.prems"(3) res m by (auto simp: outcome_def tracked_def)
    next
      case (Inr s')
      have res: "search_loop wcag c h t r i s = search_loop wcag c h t r (i + 1) s'"
        "probes wcag c h t r i s = mid_of s # probes wcag c h t r (i + 1) s'"
        using True Inr
        by (simp_all add: search_loop.simps[of _ _ _ _ _ i] probes.simps[of _ _ _ _ _ i])
      have "outcome wcag c h t r ((seen @ [mid_of s]) @ probes wcag c h t r (i + 1) s')
              (search_loop wcag c h t r (i + 1) s')"
        using True "1.prems" by (intro "1.IH"[OF True Inr] tracked_pass[OF Inr]) simp_all
      then show ?thesis
        using res by simp
    qed
  qed
qed

lemma adjust_outcome:
  "outcome wcag c h t r
     (probes wcag c h t r 0 \<lparr>minL = 0, maxL = 1, bestL = None, minDiff = PInf\<rparr>)
     (adjustLightnessForContrast wcag c h t r)"
  using search_loop_outcome[of 0 "[]" wcag c h t r
          "\<lparr>minL = 0, maxL = 1, bestL = None, minDiff = PInf\<rparr>"]
  by (simp add: adjustLightnessForContrast_def tracked_def)

lemma search_loop_bracket:
  "bracket s \<Longrightarrow> search_loop wcag c h t r i s = Some x \<Longrightarrow> 0 < x \<and> x < 1"
proof (induction wcag c h t r i s rule: search_loop.induct)
  case (1 wcag c h t r i s)
  show ?case
  proof (cases "i < 20")
    case False
    with "1.prems" show ?thesis
      by (simp add: search_loop.simps[of _ _ _ _ _ i] bracket_def)
  next
    case True
    show ?thesis
    proof (cases "pass wcag c h t r s")
      case (Inl m)
      with True "1.prems" pass_Inl(1)[OF Inl] bracket_mid[of s] show ?thesis
        by (simp add: search_loop.simps[of _ _ _ _ _ i])
    next
      case (Inr s')
      with True "1.prems"(2) have "search_loop wcag c h t r (i + 1) s' = Some x"
        by (simp add: search_loop.simps[of _ _ _ _ _ i])
      with "1.IH"[OF True Inr bracket_pass[OF Inr "1.prems"(1)]] show ?thesis
        by simp
    qed
  qed
qed

lemma adjust_range:
  "adjustLightnessForContrast wcag c h t r = Some x \<Longrightarrow> 0 < x \<and> x < 1"
  using search_loop_bracket[of "\<lparr>minL = 0, maxL = 1, bestL = None, minDiff = PInf\<rparr>"
          wcag c h t r 0 x]
  by (simp add: adjustLightnessForContrast_def bracket_def)

lemma probes_first:
  "\<exists>rest. probes wcag c h t r 0 \<lparr>minL = 0, maxL = 1, bestL = None, minDiff = PInf\<rparr>
           = (1 / 2) # rest"
  by (subst probes.simps) (simp add: mid_of_def)


section \<open>The palette loop\<close>

lemma palette_loop_map:
  "palette_loop wcag str ident c h steps contrastTargets i palette =
     palette @ map (paletteStep wcag str ident c h steps contrastTargets) [i..<steps]"
proof (induction wcag str ident c h steps contrastTargets i palette rule: palette_loop.induct)
  case (1 wcag str ident c h steps contrastTargets i palette)
  show ?case
  proof (cases "i < steps")
    case True
    then show ?thesis
      using "1.IH" by (subst palette_loop.simps) (simp add: upt_conv_Cons)
  next
    case False
    then show ?thesis
      by (subst palette_loop.simps) simp
  qed
qed

lemma generatePalette_map:
  "generatePalette wcag str ident l c h steps contrastTargets =
     map (paletteStep wcag str ident c h steps contrastTargets) [0..<steps]"
  by (simp add: generatePalette_def palette_loop_map)

lemma generatePalette_nth:
  "i < steps \<Longrightarrow>
   generatePalette wcag str ident l c h steps contrastTargets ! i =
     paletteStep wcag str ident c h steps contrastTargets i"
  by (simp add: generatePalette_map)

lemma length_generatePalette:
  "length (generatePalette wcag str ident l c h steps contrastTargets) = steps"
  by (simp add: generatePalette_map)

lemma paletteStep_props:
  "get_prop (paletteStep wcag str ident c h steps contrastTargets i) ''id'' =
     Str (ident @ ''-'' @ decimal i)"
  "get_prop (paletteStep wcag str ident c h steps contrastTargets i) ''stepName'' =
     Str (stepName i)"
  "get_prop (paletteStep wcag str ident c h steps contrastTargets i) ''l'' =
     Num (parseFloat_toFixed3 (fst (lightness wcag c h steps contrastTargets i)))"
  "get_prop (paletteStep wcag str ident c h steps contrastTargets i) ''c'' = Num c"
  "get_prop (paletteStep wcag str ident c h steps contrastTargets i) ''h'' = Num h"
  "get_prop (paletteStep wcag str ident c h steps contrastTargets i) ''css'' =
     Str (oklch str (fst (lightness wcag c h steps contrastTargets i)) c h)"
  "get_prop (paletteStep wcag str ident c h steps contrastTargets i) ''contrastTarget'' =
     target_value contrastTargets i"
  "get_prop (paletteStep wcag str ident c h steps contrastTargets i) ''isContrastForced'' =
     Bool (snd (lightness wcag c h steps contrastTargets i))"
  "get_prop (paletteStep wcag str ident c h steps contrastTargets i) ''hex'' = Undefined"
  "get_prop (paletteStep wcag str ident c h steps contrastTargets i) ''contrast'' = Undefined"
  by (simp_all add: paletteStep_def get_prop_def split: prod.splits)

section \<open>The default curve and the rounding\<close>

lemma defaultL_formula:
  "2 \<le> steps \<Longrightarrow> defaultL steps i = Fin (0.97 - real i / (real steps - 1) * 0.9)"
  by (simp add: defaultL_def)

lemma defaultL_one: "defaultL 1 0 = NaN"
  by (simp add: defaultL_def inf_of_sign_def)

lemma lightness_default:
  "\<not> truthy contrastTargets i \<Longrightarrow>
   lightness wcag c h steps contrastTargets i = (defaultL steps i, False)"
  by (simp add: lightness_def)

lemma affine_bounds:
  "0 \<le> q \<Longrightarrow> q \<le> 1 \<Longrightarrow> 0.07 \<le> 0.97 - q * 0.9 \<and> 0.97 - q * 0.9 \<le> (0.97::real)"
  by simp

lemma affine_strict: "p < q \<Longrightarrow> 0.97 - q * 0.9 < 0.97 - p * (0.9::real)"
  by simp

lemma affine_gap: "p + d \<le> q \<Longrightarrow> (0.97 - q * 0.9) + d * 0.9 \<le> 0.97 - p * (0.9::real)"
  by (simp add: algebra_simps)

lemma ratio_bounds:
  assumes "2 \<le> steps" "i < steps"
  shows "0 \<le> real i / (real steps - 1)" and "real i / (real steps - 1) \<le> 1"
proof -
  have "real i \<le> real steps - 1" using assms by linarith
  moreover have pos: "0 < real steps - 1" using assms by linarith
  ultimately show "real i / (real steps - 1) \<le> 1" by (simp add: divide_le_eq)
  show "0 \<le> real i / (real steps - 1)" using pos by simp
qed

lemma defaultL_bounds:
  assumes "2 \<le> steps" "i < steps"
  shows "0.07 \<le> 0.97 - real i / (real steps - 1) * 0.9"
    and "0.97 - real i / (real steps - 1) * 0.9 \<le> 0.97"
  using affine_bounds[OF ratio_bounds[OF assms]] by blast+

lemma defaultL_strict:
  assumes "2 \<le> steps" "i < j"
  shows "0.97 - real j / (real steps - 1) * 0.9 < 0.97 - real i / (real steps - 1) * 0.9"
proof -
  have pos: "0 < real steps - 1" using assms by linarith
  have "real i / (real steps - 1) < real j / (real steps - 1)"
    using assms pos by (simp add: divide_strict_right_mono)
  then show ?thesis by (rule affine_strict)
qed

lemma defaultL_gap:
  assumes "2 \<le> steps" "steps \<le> 901" "i < j"
  shows "(0.97 - real j / (real steps - 1) * 0.9) + 1 / 1000
           \<le> 0.97 - real i / (real steps - 1) * 0.9"
proof -
  have pos: "0 < real steps - 1" using assms by linarith
  have le: "real steps - 1 \<le> 900" using assms by linarith
  have "real i + 1 \<le> real j" using assms by linarith
  then have "(real i + 1) / (real steps - 1) \<le> real j / (real steps - 1)"
    using pos by (simp add: divide_right_mono)
  moreover have "1 / 900 \<le> 1 / (real steps - 1)"
    using pos le by (simp add: frac_le)
  ultimately have "real i / (real steps - 1) + 1 / 900 \<le> real j / (real steps - 1)"
    by (simp add: add_divide_distrib)
  from affine_gap[OF this] show ?thesis by simp
qed

lemma round3_pos:
  "0 \<le> x \<Longrightarrow> x \<le> 1 \<Longrightarrow>
   parseFloat_toFixed3 (Fin x) = Fin (real_of_int \<lfloor>x * 1000 + 1 / 2\<rfloor> / 1000)"
  by (cases "x = 0") simp_all




lemma round3_mono:
  "x \<le> y \<Longrightarrow>
   real_of_int \<lfloor>x * 1000 + 1 / 2\<rfloor> / 1000 \<le> real_of_int \<lfloor>y * 1000 + 1 / 2\<rfloor> / 1000"
  by (simp add: floor_mono)

lemma round3_strict:
  assumes "x + 1 / 1000 \<le> (y::real)"
  shows "real_of_int \<lfloor>x * 1000 + 1 / 2\<rfloor> / 1000 < real_of_int \<lfloor>y * 1000 + 1 / 2\<rfloor> / 1000"
proof -
  have "real_of_int \<lfloor>x * 1000 + 1 / 2\<rfloor> \<le> x * 1000 + 1 / 2" by (rule of_int_floor_le)
  moreover have "y * 1000 + 1 / 2 < real_of_int \<lfloor>y * 1000 + 1 / 2\<rfloor> + 1" by linarith
  ultimately have "real_of_int \<lfloor>x * 1000 + 1 / 2\<rfloor> < real_of_int \<lfloor>y * 1000 + 1 / 2\<rfloor>"
    using assms by linarith
  then show ?thesis by simp
qed

lemma lightness_unit:
  assumes "2 \<le> steps" and "i < steps"
  shows "\<exists>x. fst (lightness wcag c h steps contrastTargets i) = Fin x \<and> 0 \<le> x \<and> x \<le> 1"
proof (cases "truthy contrastTargets i \<and>
    adjustLightnessForContrast wcag c h (target_number contrastTargets i) ''#ffffff'' \<noteq> None")
  case True
  then obtain x where x: "adjustLightnessForContrast wcag c h (target_number contrastTargets i)
                            ''#ffffff'' = Some x"
    by blast
  from adjust_range [OF x] x True show ?thesis
    by (simp add: lightness_def)
next
  case False
  then have "fst (lightness wcag c h steps contrastTargets i) = defaultL steps i"
    by (auto simp: lightness_def Let_def split: option.splits)
  with defaultL_bounds [OF assms] show ?thesis
    by (simp add: defaultL_formula [OF assms(1)])
qed

section \<open>The model on the sample inputs\<close>

text \<open>
  The search against \<open>linear_contrast\<close>: a target of 4.5 is met at the eighth probe;
  the targets 100 and 0 are out of reach, all twenty probes are made and the last one,
  the closest, is returned.
\<close>

lemma sample_reachable:
  "adjustLightnessForContrast linear_contrast (Fin 0.15) (Fin 260) (Fin 4.5) ''#ffffff''
     = Some (211 / 256)"
  by (simp add: adjustLightnessForContrast_def search_loop.simps pass_def mid_of_def
      linear_contrast_def Let_def)



lemma sample_unreachable:
  "adjustLightnessForContrast linear_contrast (Fin 0.15) (Fin 260) (Fin 100) ''#ffffff''
     = Some (1 / 1048576)"
  by (simp add: adjustLightnessForContrast_def search_loop.simps pass_def mid_of_def
      linear_contrast_def Let_def)


lemma sample_zero_target:
  "adjustLightnessForContrast linear_contrast (Fin 0.15) (Fin 260) (Fin 0) ''#ffffff''
     = Some (1048575 / 1048576)"
  by (simp add: adjustLightnessForContrast_def search_loop.simps pass_def mid_of_def
      linear_contrast_def Let_def)

section \<open>C1: the fields of a step\<close>

text \<open>
  C1. Claimed: every step of the output carries a hex colour rendered from
  \<open>(lightness, c, h)\<close> and the contrast achieved against the reference colour.
  \<open>generatePalette\<close> computes neither. The object pushed for an index has the eight
  properties \<open>id\<close>, \<open>stepName\<close>, \<open>l\<close>, \<open>c\<close>, \<open>h\<close>, \<open>css\<close>, \<open>contrastTarget\<close> and
  \<open>isContrastForced\<close> and no other: \<open>hex\<close> and \<open>contrast\<close> read as
  \<^verbatim>\<open>undefined\<close>, and the contrast text that \<^verbatim>\<open>PaletteRow\<close> builds from the step
  is a \<^verbatim>\<open>TypeError\<close>.
\<close>

theorem step_has_no_hex_no_contrast:
  assumes "i < steps"
  shows "map fst (generatePalette wcag str ident l c h steps contrastTargets ! i)
           = [''id'', ''stepName'', ''l'', ''c'', ''h'', ''css'', ''contrastTarget'',
              ''isContrastForced''] \<and>
         get_prop (generatePalette wcag str ident l c h steps contrastTargets ! i) ''hex''
           = Undefined \<and>
         get_prop (generatePalette wcag str ident l c h steps contrastTargets ! i) ''contrast''
           = Undefined \<and>
         step_contrast_text fixed2 (generatePalette wcag str ident l c h steps contrastTargets ! i)
           = Inl TypeError"
  using assms
  by (simp add: generatePalette_nth paletteStep_props step_contrast_text_def)
     (simp add: paletteStep_def split: prod.splits)

theorem step_has_no_hex_no_contrast_witness:
  "(0::nat) < 3 \<and>
   get_prop (generatePalette linear_contrast plain_str ''primary'' (Fin 0.6) (Fin 0.15) (Fin 260)
               3 Map.empty ! 0) ''hex'' = Undefined \<and>
   get_prop (generatePalette linear_contrast plain_str ''primary'' (Fin 0.6) (Fin 0.15) (Fin 260)
               3 Map.empty ! 0) ''contrast'' = Undefined \<and>
   step_contrast_text plain_str
     (generatePalette linear_contrast plain_str ''primary'' (Fin 0.6) (Fin 0.15) (Fin 260)
        3 Map.empty ! 0) = Inl TypeError"
  using step_has_no_hex_no_contrast [of 0 3 linear_contrast plain_str "''primary''" "Fin 0.6"
          "Fin 0.15" "Fin 260" Map.empty plain_str]
  by simp

section \<open>C2: the forced flag\<close>

text \<open>
  C2, as the code has it. The search is run for index \<open>i\<close> exactly when
  \<^verbatim>\<open>contrastTargets[i]\<close> is truthy, that is a number other than \<open>0\<close> and
  \<^verbatim>\<open>NaN\<close>. \<open>isContrastForced\<close> is true exactly when the entry is truthy and the
  search returned a lightness, which is then the lightness of the step; in every other
  case the step has the default lightness and the flag is false.
\<close>

theorem forced_flag:
  assumes "i < steps"
  shows "(truthy contrastTargets i \<longleftrightarrow>
            (\<exists>x. contrastTargets i = Some (NumEntry x) \<and> x \<noteq> Fin 0 \<and> x \<noteq> NaN)) \<and>
         get_prop (generatePalette wcag str ident l c h steps contrastTargets ! i)
             ''isContrastForced''
           = Bool (truthy contrastTargets i \<and>
                   adjustLightnessForContrast wcag c h (target_number contrastTargets i)
                     ''#ffffff'' \<noteq> None) \<and>
         (truthy contrastTargets i \<longrightarrow>
            get_prop (generatePalette wcag str ident l c h steps contrastTargets ! i) ''css''
              = Str (oklch str
                       (case adjustLightnessForContrast wcag c h
                               (target_number contrastTargets i) ''#ffffff'' of
                          Some x \<Rightarrow> Fin x
                        | None \<Rightarrow> defaultL steps i) c h)) \<and>
         (\<not> truthy contrastTargets i \<longrightarrow>
            get_prop (generatePalette wcag str ident l c h steps contrastTargets ! i) ''css''
              = Str (oklch str (defaultL steps i) c h))"
proof -
  have t: "truthy contrastTargets i \<longleftrightarrow>
             (\<exists>x. contrastTargets i = Some (NumEntry x) \<and> x \<noteq> Fin 0 \<and> x \<noteq> NaN)"
    by (simp add: truthy_def split: option.splits entry.splits)
  have flag: "snd (lightness wcag c h steps contrastTargets i)
                = (truthy contrastTargets i \<and>
                   adjustLightnessForContrast wcag c h (target_number contrastTargets i)
                     ''#ffffff'' \<noteq> None)"
    by (simp add: lightness_def Let_def split: option.splits)
  have forced: "fst (lightness wcag c h steps contrastTargets i)
                  = (case adjustLightnessForContrast wcag c h
                            (target_number contrastTargets i) ''#ffffff'' of
                       Some x \<Rightarrow> Fin x
                     | None \<Rightarrow> defaultL steps i)" if "truthy contrastTargets i"
    using that by (simp add: lightness_def Let_def split: option.splits)
  have dflt: "fst (lightness wcag c h steps contrastTargets i) = defaultL steps i"
    if "\<not> truthy contrastTargets i"
    using that by (simp add: lightness_default)
  show ?thesis
    using assms t flag forced dflt
    by (simp add: generatePalette_nth paletteStep_props)
qed

theorem forced_flag_witness:
  "(0::nat) < 3 \<and> truthy [0 \<mapsto> NumEntry (Fin 4.5)] 0 \<and>
   get_prop (generatePalette linear_contrast plain_str ''primary'' (Fin 0.6) (Fin 0.15) (Fin 260)
               3 [0 \<mapsto> NumEntry (Fin 4.5)] ! 0) ''isContrastForced'' = Bool True \<and>
   get_prop (generatePalette linear_contrast plain_str ''primary'' (Fin 0.6) (Fin 0.15) (Fin 260)
               3 [0 \<mapsto> NumEntry (Fin 4.5)] ! 0) ''css''
     = Str (oklch plain_str (Fin (211 / 256)) (Fin 0.15) (Fin 260)) \<and>
   \<not> truthy [0 \<mapsto> NumEntry (Fin 4.5)] 1 \<and>
   get_prop (generatePalette linear_contrast plain_str ''primary'' (Fin 0.6) (Fin 0.15) (Fin 260)
               3 [0 \<mapsto> NumEntry (Fin 4.5)] ! 1) ''isContrastForced'' = Bool False"
proof -
  have t: "truthy [0 \<mapsto> NumEntry (Fin 4.5)] 0" "\<not> truthy [0 \<mapsto> NumEntry (Fin 4.5)] 1"
    by (simp_all add: truthy_def)
  have n: "target_number [0 \<mapsto> NumEntry (Fin 4.5)] 0 = Fin 4.5"
    by (simp add: target_number_def)
  show ?thesis
    using forced_flag [of 0 3 "[0 \<mapsto> NumEntry (Fin 4.5)]" linear_contrast plain_str
            "''primary''" "Fin 0.6" "Fin 0.15" "Fin 260"]
      forced_flag [of 1 3 "[0 \<mapsto> NumEntry (Fin 4.5)]" linear_contrast plain_str
            "''primary''" "Fin 0.6" "Fin 0.15" "Fin 260"]
    unfolding n sample_reachable
    using t by simp
qed

text \<open>
  As claimed, for every non-null entry including \<open>0\<close>, C2 fails: the test
  \<^verbatim>\<open>if (contrastTargets[i])\<close> is a truthiness test. With the entry \<open>0\<close> at index 0
  the step has the flag false and the default lightness \<open>0.97\<close>, although the search
  for the target \<open>0\<close> would have returned a lightness.
\<close>

theorem zero_target_counterexample:
  "target_value [0 \<mapsto> NumEntry (Fin 0)] 0 = Num (Fin 0) \<and>
   get_prop (generatePalette linear_contrast plain_str ''primary'' (Fin 0.6) (Fin 0.15) (Fin 260)
               3 [0 \<mapsto> NumEntry (Fin 0)] ! 0) ''isContrastForced'' = Bool False \<and>
   get_prop (generatePalette linear_contrast plain_str ''primary'' (Fin 0.6) (Fin 0.15) (Fin 260)
               3 [0 \<mapsto> NumEntry (Fin 0)] ! 0) ''l'' = Num (Fin 0.97) \<and>
   adjustLightnessForContrast linear_contrast (Fin 0.15) (Fin 260) (Fin 0) ''#ffffff''
     = Some (1048575 / 1048576)"
  unfolding sample_zero_target
  by (simp add: generatePalette_nth paletteStep_props lightness_default truthy_def
      target_value_def defaultL_formula)

section \<open>C3: the shape of the output\<close>

text \<open>
  C3. A call with \<open>steps = n \<ge> 2\<close> returns exactly \<open>n\<close> steps, in the order of their
  index (step \<open>i\<close> has the id of index \<open>i\<close>), and every step's \<open>c\<close> and \<open>h\<close> are the
  chroma and the hue of the call.
\<close>

theorem generatePalette_shape:
  assumes "2 \<le> steps"
  shows "length (generatePalette wcag str ident l c h steps contrastTargets) = steps \<and>
         (\<forall>i<steps.
            get_prop (generatePalette wcag str ident l c h steps contrastTargets ! i) ''id''
              = Str (ident @ ''-'' @ decimal i) \<and>
            get_prop (generatePalette wcag str ident l c h steps contrastTargets ! i) ''c''
              = Num c \<and>
            get_prop (generatePalette wcag str ident l c h steps contrastTargets ! i) ''h''
              = Num h)"
  by (simp add: length_generatePalette generatePalette_nth paletteStep_props)

theorem generatePalette_shape_witness:
  "(2::nat) \<le> 3 \<and>
   length (generatePalette linear_contrast plain_str ''primary'' (Fin 0.6) (Fin 0.15) (Fin 260)
             3 Map.empty) = 3 \<and>
   get_prop (generatePalette linear_contrast plain_str ''primary'' (Fin 0.6) (Fin 0.15) (Fin 260)
               3 Map.empty ! 2) ''id'' = Str ''primary-2'' \<and>
   get_prop (generatePalette linear_contrast plain_str ''primary'' (Fin 0.6) (Fin 0.15) (Fin 260)
               3 Map.empty ! 2) ''c'' = Num (Fin 0.15) \<and>
   get_prop (generatePalette linear_contrast plain_str ''primary'' (Fin 0.6) (Fin 0.15) (Fin 260)
               3 Map.empty ! 2) ''h'' = Num (Fin 260)"
  using generatePalette_shape [of 3 linear_contrast plain_str "''primary''" "Fin 0.6"
          "Fin 0.15" "Fin 260" Map.empty]
  by (simp add: decimal.simps)

section \<open>C4: the default lightness\<close>



section \<open>C5: what the search returns\<close>



section \<open>C6: when the search returns a lightness\<close>

text \<open>
  C6, as the code has it. The search returns \<^verbatim>\<open>null\<close> exactly when no probe has an
  error below \<^verbatim>\<open>Infinity\<close>. Every lightness it returns lies strictly between 0 and
  1, and it returns one whenever the error of the first probe \<open>0.5\<close> is below
  \<^verbatim>\<open>Infinity\<close>: so for every target that is a finite number and every contrast
  function with a finite value at \<open>0.5\<close>, whether the target can be reached or not.
  For a target that is not a finite number it returns \<^verbatim>\<open>null\<close>. The function has no
  error value.
\<close>

theorem adjustLightness_result:
  "(adjustLightnessForContrast wcag c h targetContrast referenceColor = None \<longleftrightarrow>
      (\<forall>m\<in>set (probes wcag c h targetContrast referenceColor 0
                    \<lparr>minL = 0, maxL = 1, bestL = None, minDiff = PInf\<rparr>).
          \<not> jless (contrast_error wcag c h targetContrast referenceColor m) PInf)) \<and>
   (\<forall>x. adjustLightnessForContrast wcag c h targetContrast referenceColor = Some x
          \<longrightarrow> 0 < x \<and> x < 1) \<and>
   (jless (contrast_error wcag c h targetContrast referenceColor (1 / 2)) PInf \<longrightarrow>
      (\<exists>x. adjustLightnessForContrast wcag c h targetContrast referenceColor = Some x \<and>
           0 < x \<and> x < 1)) \<and>
   (\<forall>t v. targetContrast = Fin t \<and>
          wcag \<lparr>col_mode = ''oklch'', col_l = Fin (1 / 2), col_c = c, col_h = h\<rparr> referenceColor
            = Fin v \<longrightarrow>
      (\<exists>x. adjustLightnessForContrast wcag c h targetContrast referenceColor = Some x \<and>
           0 < x \<and> x < 1)) \<and>
   ((\<forall>t. targetContrast \<noteq> Fin t) \<longrightarrow>
      adjustLightnessForContrast wcag c h targetContrast referenceColor = None)"
proof -
  let ?ps = "probes wcag c h targetContrast referenceColor 0
               \<lparr>minL = 0, maxL = 1, bestL = None, minDiff = PInf\<rparr>"
  let ?res = "adjustLightnessForContrast wcag c h targetContrast referenceColor"
  let ?err = "contrast_error wcag c h targetContrast referenceColor"
  note out = adjust_outcome [of wcag c h targetContrast referenceColor]
  have none: "?res = None \<longleftrightarrow> (\<forall>m\<in>set ?ps. \<not> jless (?err m) PInf)"
  proof (cases ?res)
    case None
    with out show ?thesis by (simp add: outcome_def)
  next
    case (Some x)
    with out obtain e where "x \<in> set ?ps" and "?err x = Fin e"
      by (auto simp: outcome_def)
    then have "x \<in> set ?ps" and "jless (?err x) PInf" by simp_all
    then have "\<exists>m\<in>set ?ps. jless (?err m) PInf" by blast
    with Some show ?thesis by simp
  qed
  have range: "\<forall>x. ?res = Some x \<longrightarrow> 0 < x \<and> x < 1"
    using adjust_range by blast
  have first: "\<exists>x. ?res = Some x \<and> 0 < x \<and> x < 1" if "jless (?err (1 / 2)) PInf"
  proof -
    from probes_first [of wcag c h targetContrast referenceColor]
    have "1 / 2 \<in> set ?ps" by auto
    with that none have "?res \<noteq> None" by blast
    with range show ?thesis by auto
  qed
  have finite: "\<exists>x. ?res = Some x \<and> 0 < x \<and> x < 1"
    if "targetContrast = Fin t"
      and "wcag \<lparr>col_mode = ''oklch'', col_l = Fin (1 / 2), col_c = c, col_h = h\<rparr> referenceColor
             = Fin v" for t v
    using first that by (simp add: contrast_error_def)
  have infinite: "?res = None" if "\<forall>t. targetContrast \<noteq> Fin t"
    using none contrast_error_not_finite [OF that] by blast
  from none range first finite infinite show ?thesis by blast
qed

theorem adjustLightness_result_witness:
  "adjustLightnessForContrast linear_contrast (Fin 0.15) (Fin 260) (Fin 100) ''#ffffff''
     = Some (1 / 1048576) \<and>
   jless (contrast_error linear_contrast (Fin 0.15) (Fin 260) (Fin 100) ''#ffffff'' (1 / 2)) PInf \<and>
   (0::real) < 1 / 1048576 \<and> (1::real) / 1048576 < 1"
  using adjustLightness_result [of linear_contrast "Fin 0.15" "Fin 260" "Fin 100" "''#ffffff''"]
  unfolding sample_unreachable
  by (simp add: contrast_error_def linear_contrast_def)

text \<open>
  As claimed, for every input, C6 fails: with the target \<^verbatim>\<open>Infinity\<close> every error
  is \<^verbatim>\<open>Infinity\<close>, \<^verbatim>\<open>diff < minDiff\<close> is never true, and \<^verbatim>\<open>null\<close> is returned.
\<close>

theorem adjustLightness_null_counterexample:
  "adjustLightnessForContrast linear_contrast (Fin 0.15) (Fin 260) PInf ''#ffffff'' = None"
  by (simp add: adjustLightnessForContrast_def search_loop.simps pass_def mid_of_def
      linear_contrast_def Let_def)

section \<open>C7: monotonicity\<close>

text \<open>
  C7, as the code has it, for indices \<open>i < j\<close> without a contrast target and
  \<open>steps \<ge> 2\<close>: the lightness computed for \<open>i\<close>, which the \<open>css\<close> text is written
  from, is strictly greater than the one computed for \<open>j\<close>; the stored \<open>l\<close> of step
  \<open>i\<close> is not smaller than the stored \<open>l\<close> of step \<open>j\<close>, and strictly greater when
  there are at most 901 steps.
\<close>

theorem default_lightness_decreasing:
  assumes "2 \<le> steps" and "i < j" and "j < steps"
    and "\<not> truthy contrastTargets i" and "\<not> truthy contrastTargets j"
  shows "(\<exists>x y. fst (lightness wcag c h steps contrastTargets i) = Fin x \<and>
                fst (lightness wcag c h steps contrastTargets j) = Fin y \<and>
                get_prop (generatePalette wcag str ident l c h steps contrastTargets ! i) ''css''
                  = Str (oklch str (Fin x) c h) \<and>
                get_prop (generatePalette wcag str ident l c h steps contrastTargets ! j) ''css''
                  = Str (oklch str (Fin y) c h) \<and>
                y < x) \<and>
         (\<exists>a b. get_prop (generatePalette wcag str ident l c h steps contrastTargets ! i) ''l''
                  = Num (Fin a) \<and>
                get_prop (generatePalette wcag str ident l c h steps contrastTargets ! j) ''l''
                  = Num (Fin b) \<and>
                b \<le> a \<and> (steps \<le> 901 \<longrightarrow> b < a))"
proof -
  define x where "x = 0.97 - real i / (real steps - 1) * 0.9"
  define y where "y = 0.97 - real j / (real steps - 1) * 0.9"
  define a where "a = real_of_int \<lfloor>x * 1000 + 1 / 2\<rfloor> / 1000"
  define b where "b = real_of_int \<lfloor>y * 1000 + 1 / 2\<rfloor> / 1000"
  have i: "i < steps" using assms by simp
  have lx: "fst (lightness wcag c h steps contrastTargets i) = Fin x"
    using assms by (simp add: lightness_default defaultL_formula x_def)
  have ly: "fst (lightness wcag c h steps contrastTargets j) = Fin y"
    using assms by (simp add: lightness_default defaultL_formula y_def)
  have rx: "0 \<le> x" "x \<le> 1"
    using defaultL_bounds [OF assms(1) i] by (simp_all add: x_def)
  have ry: "0 \<le> y" "y \<le> 1"
    using defaultL_bounds [OF assms(1,3)] by (simp_all add: y_def)
  have yx: "y < x"
    unfolding x_def y_def by (rule defaultL_strict [OF assms(1,2)])
  have cx: "get_prop (generatePalette wcag str ident l c h steps contrastTargets ! i) ''css''
              = Str (oklch str (Fin x) c h)"
    using i lx by (simp add: generatePalette_nth paletteStep_props)
  have cy: "get_prop (generatePalette wcag str ident l c h steps contrastTargets ! j) ''css''
              = Str (oklch str (Fin y) c h)"
    using assms(3) ly by (simp add: generatePalette_nth paletteStep_props)
  have sa: "get_prop (generatePalette wcag str ident l c h steps contrastTargets ! i) ''l''
              = Num (Fin a)"
    using i lx round3_pos [OF rx]
    by (simp only: generatePalette_nth paletteStep_props a_def)
  have sb: "get_prop (generatePalette wcag str ident l c h steps contrastTargets ! j) ''l''
              = Num (Fin b)"
    using assms(3) ly round3_pos [OF ry]
    by (simp only: generatePalette_nth paletteStep_props b_def)
  have ba: "b \<le> a"
    unfolding a_def b_def using yx by (intro round3_mono) simp
  have strict: "b < a" if "steps \<le> 901"
    unfolding a_def b_def x_def y_def
    by (rule round3_strict [OF defaultL_gap [OF assms(1) that assms(2)]])
  from lx ly cx cy yx sa sb ba strict show ?thesis by blast
qed

theorem default_lightness_decreasing_witness:
  "(2::nat) \<le> 3 \<and> (0::nat) < 2 \<and> (2::nat) < 3 \<and>
   \<not> truthy Map.empty 0 \<and> \<not> truthy Map.empty 2 \<and>
   fst (lightness linear_contrast (Fin 0.15) (Fin 260) 3 Map.empty 0) = Fin 0.97 \<and>
   fst (lightness linear_contrast (Fin 0.15) (Fin 260) 3 Map.empty 2) = Fin 0.07 \<and>
   get_prop (generatePalette linear_contrast plain_str ''primary'' (Fin 0.6) (Fin 0.15) (Fin 260)
               3 Map.empty ! 0) ''l'' = Num (Fin 0.97) \<and>
   get_prop (generatePalette linear_contrast plain_str ''primary'' (Fin 0.6) (Fin 0.15) (Fin 260)
               3 Map.empty ! 2) ''l'' = Num (Fin 0.07)"
  using default_lightness_decreasing [of 3 0 2 Map.empty linear_contrast "Fin 0.15" "Fin 260"
          plain_str "''primary''" "Fin 0.6"]
  by (simp add: generatePalette_nth paletteStep_props lightness_default truthy_def
      defaultL_formula)

text \<open>
  As claimed, for the lightness of the steps at every step count, C7 fails: the \<open>l\<close> a
  step stores is rounded to three decimals. With 1802 steps, step 1 computes
  \<open>0.97 - 0.9 / 1801\<close>, and the steps 0 and 1 both store \<open>0.97\<close>.
\<close>

theorem stored_lightness_counterexample:
  "get_prop (generatePalette linear_contrast plain_str ''primary'' (Fin 0.6) (Fin 0.15) (Fin 260)
               1802 Map.empty ! 0) ''l'' = Num (Fin 0.97) \<and>
   get_prop (generatePalette linear_contrast plain_str ''primary'' (Fin 0.6) (Fin 0.15) (Fin 260)
               1802 Map.empty ! 1) ''l'' = Num (Fin 0.97)"
  by (simp add: generatePalette_nth paletteStep_props lightness_default truthy_def
      defaultL_formula)

section \<open>C8: the base lightness\<close>

text \<open>
  C8. The base lightness \<open>l\<close> of the family does not reach the output: two calls that
  differ in \<open>l\<close> only return the same steps.
\<close>

theorem generatePalette_ignores_base_lightness:
  "generatePalette wcag str ident l1 c h steps contrastTargets =
   generatePalette wcag str ident l2 c h steps contrastTargets"
  by (simp add: generatePalette_def)

section \<open>C9: a single step\<close>

text \<open>
  C9. Nothing in \<open>generatePalette\<close> guards the step count. With \<open>steps \<ge> 2\<close> the
  divisor \<open>steps - 1\<close> is not zero and the lightness of every index is a finite number.
  With \<open>steps = 1\<close> the default branch divides \<open>0\<close> by \<open>0\<close>: the result is \<^verbatim>\<open>NaN\<close>, no
  error is raised and nothing is clamped, and the call returns one step whose \<open>l\<close> is
  \<^verbatim>\<open>NaN\<close>.
\<close>

theorem single_step_unguarded:
  "(2 \<le> steps \<and> i < steps \<longrightarrow>
      real steps - 1 \<noteq> 0 \<and>
      (\<exists>x. fst (lightness wcag c h steps contrastTargets i) = Fin x)) \<and>
   jdiv (Fin (real (0::nat))) (Fin (real (1::nat) - 1)) = NaN \<and>
   (\<not> truthy contrastTargets 0 \<longrightarrow>
      fst (lightness wcag c h 1 contrastTargets 0) = NaN \<and>
      length (generatePalette wcag str ident l c h 1 contrastTargets) = 1 \<and>
      get_prop (generatePalette wcag str ident l c h 1 contrastTargets ! 0) ''l'' = Num NaN \<and>
      get_prop (generatePalette wcag str ident l c h 1 contrastTargets ! 0) ''css''
        = Str (oklch str NaN c h) \<and>
      get_prop (generatePalette wcag str ident l c h 1 contrastTargets ! 0) ''isContrastForced''
        = Bool False)"
proof -
  have fin: "real steps - 1 \<noteq> 0 \<and>
             (\<exists>x. fst (lightness wcag c h steps contrastTargets i) = Fin x)"
    if "2 \<le> steps" "i < steps"
    using lightness_unit [OF that, of wcag c h contrastTargets] that(1) by auto
  have zero: "jdiv (Fin (real (0::nat))) (Fin (real (1::nat) - 1)) = NaN"
    by (simp add: inf_of_sign_def)
  have one: "lightness wcag c h 1 contrastTargets 0 = (NaN, False)"
    if "\<not> truthy contrastTargets 0"
    by (simp only: lightness_default [OF that] defaultL_one)
  show ?thesis
    using fin zero one
    by (simp add: length_generatePalette generatePalette_nth paletteStep_props)
qed

theorem single_step_unguarded_witness:
  "(2::nat) \<le> 3 \<and> (2::nat) < 3 \<and>
   fst (lightness linear_contrast (Fin 0.15) (Fin 260) 3 Map.empty 2) = Fin 0.07 \<and>
   \<not> truthy Map.empty 0 \<and>
   get_prop (generatePalette linear_contrast plain_str ''primary'' (Fin 0.6) (Fin 0.15) (Fin 260)
               1 Map.empty ! 0) ''l'' = Num NaN \<and>
   get_prop (generatePalette linear_contrast plain_str ''primary'' (Fin 0.6) (Fin 0.15) (Fin 260)
               1 Map.empty ! 0) ''css''
     = Str (oklch plain_str NaN (Fin 0.15) (Fin 260))"
  using single_step_unguarded [of 3 2 linear_contrast "Fin 0.15" "Fin 260" Map.empty
          plain_str "''primary''" "Fin 0.6"]
  by (simp add: truthy_def lightness_default defaultL_formula)

section \<open>C10: the stored and the rendered lightness\<close>



end
